theory Spec2Isabelle
  imports Complex_Main
begin

section \<open>Python values used by \<^verbatim>\<open>tools/git_autocommit.py\<close>\<close>

text \<open>
  Python floats are modelled as exact rationals together with the three special values;
  rounding is not modelled. Strings are lists of characters, one \<^typ>\<open>char\<close> per code
  point (so the model covers texts over the first 256 code points).
\<close>

datatype pyfloat = Finite rat | PosInf | NegInf | NaN

fun pyfloat_less :: "pyfloat \<Rightarrow> pyfloat \<Rightarrow> bool" where
  "pyfloat_less NaN b = False"
| "pyfloat_less a NaN = False"
| "pyfloat_less (Finite a) (Finite b) = (a < b)"
| "pyfloat_less (Finite a) PosInf = True"
| "pyfloat_less (Finite a) NegInf = False"
| "pyfloat_less PosInf b = False"
| "pyfloat_less NegInf NegInf = False"
| "pyfloat_less NegInf b = True"

datatype json =
    JNull
  | JBool bool
  | JInt int
  | JFloat pyfloat
  | JStr string
  | JArr "json list"
  | JObj "(string \<times> json) list"

text \<open>Dictionary keys up to Python's key equality (\<^verbatim>\<open>1 == 1.0 == True\<close>).\<close>

datatype pykey = KNone | KNum rat | KPosInf | KNegInf | KNaN | KStr string

type_synonym pydict = "pykey \<Rightarrow> json option"

fun hash_key :: "json \<Rightarrow> pykey option" where
  "hash_key JNull = Some KNone"
| "hash_key (JBool b) = Some (KNum (if b then 1 else 0))"
| "hash_key (JInt n) = Some (KNum (of_int n))"
| "hash_key (JFloat (Finite r)) = Some (KNum r)"
| "hash_key (JFloat PosInf) = Some KPosInf"
| "hash_key (JFloat NegInf) = Some KNegInf"
| "hash_key (JFloat NaN) = Some KNaN"
| "hash_key (JStr s) = Some (KStr s)"
| "hash_key (JArr xs) = None"
| "hash_key (JObj kvs) = None"

fun type_name :: "json \<Rightarrow> string" where
  "type_name JNull = ''NoneType''"
| "type_name (JBool b) = ''bool''"
| "type_name (JInt n) = ''int''"
| "type_name (JFloat f) = ''float''"
| "type_name (JStr s) = ''str''"
| "type_name (JArr xs) = ''list''"
| "type_name (JObj kvs) = ''dict''"

text \<open>\<^verbatim>\<open>bool(x)\<close> and \<^verbatim>\<open>not x\<close>.\<close>

fun truthy :: "json \<Rightarrow> bool" where
  "truthy JNull = False"
| "truthy (JBool b) = b"
| "truthy (JInt n) = (n \<noteq> 0)"
| "truthy (JFloat f) = (f \<noteq> Finite 0)"
| "truthy (JStr s) = (s \<noteq> [])"
| "truthy (JArr xs) = (xs \<noteq> [])"
| "truthy (JObj kvs) = (kvs \<noteq> [])"

subsection \<open>Text\<close>

definition dquote :: char where
  "dquote = CHR 0x22"

definition newline :: char where
  "newline = CHR 0x0A"

text \<open>\<^verbatim>\<open>str.isspace\<close> on the code points below 256.\<close>

definition py_isspace :: "char \<Rightarrow> bool" where
  "py_isspace c = ((of_char c :: nat) \<in> {9, 10, 11, 12, 13, 28, 29, 30, 31, 32, 133, 160})"

definition strip :: "string \<Rightarrow> string" where
  "strip s = rev (dropWhile py_isspace (rev (dropWhile py_isspace s)))"

definition digit_char :: "nat \<Rightarrow> char" where
  "digit_char n = ''0123456789'' ! n"

fun dec_nat :: "nat \<Rightarrow> string" where
  "dec_nat n = (if n < 10 then [digit_char n] else dec_nat (n div 10) @ [digit_char (n mod 10)])"

declare dec_nat.simps [simp del]

definition str_int :: "int \<Rightarrow> string" where
  "str_int i = (if i < 0 then CHR ''-'' # dec_nat (nat (- i)) else dec_nat (nat i))"

text \<open>\<^verbatim>\<open>"%0wd" % n\<close> for a non-negative \<open>n\<close>.\<close>

definition zero_pad :: "nat \<Rightarrow> nat \<Rightarrow> string" where
  "zero_pad w n = replicate (w - length (dec_nat n)) CHR ''0'' @ dec_nat n"

subsection \<open>\<^verbatim>\<open>datetime.datetime\<close>\<close>

record datetime =
  year :: nat
  month :: nat
  day :: nat
  hour :: nat
  minute :: nat
  second :: nat
  microsecond :: nat

definition is_leap :: "nat \<Rightarrow> bool" where
  "is_leap y = (y mod 4 = 0 \<and> (y mod 100 \<noteq> 0 \<or> y mod 400 = 0))"

definition days_in_month :: "nat \<Rightarrow> nat \<Rightarrow> nat" where
  "days_in_month y m =
     (if m = 2 then (if is_leap y then 29 else 28)
      else if m \<in> {4, 6, 9, 11} then 30 else 31)"

text \<open>The range checks of the \<^verbatim>\<open>datetime\<close> constructor: every value of the type passes them.\<close>

definition valid_datetime :: "datetime \<Rightarrow> bool" where
  "valid_datetime dt =
     (1 \<le> year dt \<and> year dt \<le> 9999 \<and> 1 \<le> month dt \<and> month dt \<le> 12 \<and>
      1 \<le> day dt \<and> day dt \<le> days_in_month (year dt) (month dt) \<and>
      hour dt < 24 \<and> minute dt < 60 \<and> second dt < 60 \<and> microsecond dt < 1000000)"

definition isoformat :: "datetime \<Rightarrow> string" where
  "isoformat dt =
     zero_pad 4 (year dt) @ ''-'' @ zero_pad 2 (month dt) @ ''-'' @ zero_pad 2 (day dt) @ ''T'' @
     zero_pad 2 (hour dt) @ '':'' @ zero_pad 2 (minute dt) @ '':'' @ zero_pad 2 (second dt) @
     (if microsecond dt = 0 then [] else CHR ''.'' # zero_pad 6 (microsecond dt))"

section \<open>The environment\<close>

text \<open>
  What the script asks of the outside world, as functions on a world state \<open>'w\<close>: reading
  and parsing the configuration file, running a shell command, the two clocks and the
  sleep. The asynchronous \<^verbatim>\<open>KeyboardInterrupt\<close> is delivered at the sleep, where the
  process waits. The last four fields are not part of the world: \<^verbatim>\<open>float(s)\<close> on a
  string, the \<^verbatim>\<open>str\<close> of floats and containers, the path computed from
  \<^verbatim>\<open>__file__\<close>, and the exception that \<^verbatim>\<open>print\<close> raises on a text that standard
  output cannot encode, are taken as parameters.

  A shell command, run in the project root, either cannot be run (\<^verbatim>\<open>subprocess.run\<close>
  raises an \<^verbatim>\<open>Exception\<close>, whose text is kept) or exits with a status, having written
  pieces of text to its standard output and its standard error, in some order.
\<close>

datatype stream = Stdout | Stderr

datatype process = Exited int "(stream \<times> string) list" | RunFailed string

datatype load_outcome = FileNotFoundError | OtherException string | Loaded json

datatype proc_outcome = Completed int string | RunException string

datatype sleep_outcome = Awake | KeyboardInterrupt | SleepException string

record 'w runtime =
  open_and_load :: "'w \<Rightarrow> load_outcome \<times> 'w"
  shell :: "string \<Rightarrow> 'w \<Rightarrow> process \<times> 'w"
  time_time :: "'w \<Rightarrow> rat \<times> 'w"
  utcnow :: "'w \<Rightarrow> datetime \<times> 'w"
  time_sleep :: "pyfloat \<Rightarrow> 'w \<Rightarrow> sleep_outcome \<times> 'w"
  float_of_str :: "string \<Rightarrow> pyfloat option"
  repr_of :: "json \<Rightarrow> string"
  CONFIG_PATH :: string
  print_error :: "string \<Rightarrow> string option"

text \<open>The trace of a run: every interaction with the world, in order.\<close>

datatype printable = Text string | Val json | Dict pydict

datatype event =
    Print "printable list"
  | Subprocess string proc_outcome
  | TimeTime rat
  | UtcNow datetime
  | Sleep pyfloat

section \<open>Configuration\<close>

definition DEFAULT_CONFIG :: pydict where
  "DEFAULT_CONFIG =
     [KStr ''enabled'' \<mapsto> JBool True,
      KStr ''delay_seconds'' \<mapsto> JInt 2,
      KStr ''debounce_seconds'' \<mapsto> JInt 5,
      KStr ''commit_message'' \<mapsto> JStr ''autosave: update'',
      KStr ''branch'' \<mapsto> JStr ''main'',
      KStr ''push'' \<mapsto> JBool True,
      KStr ''include_untracked'' \<mapsto> JBool True]"

definition config_keys :: "string list" where
  "config_keys = [''enabled'', ''delay_seconds'', ''debounce_seconds'', ''commit_message'',
     ''branch'', ''push'', ''include_untracked'']"

text \<open>\<^verbatim>\<open>d.get(k, default)\<close> for a string key.\<close>

definition dict_get :: "pydict \<Rightarrow> string \<Rightarrow> json \<Rightarrow> json" where
  "dict_get d k dflt = (case d (KStr k) of Some v \<Rightarrow> v | None \<Rightarrow> dflt)"

text \<open>
  \<^verbatim>\<open>d.update(cfg)\<close>. A JSON object is a mapping: its items are stored in file order, a
  repeated key keeping its last value. Any other value is iterated as a sequence of
  key/value pairs; \<open>Inl\<close> carries the text of the \<^verbatim>\<open>TypeError\<close> or \<^verbatim>\<open>ValueError\<close> raised.
\<close>

definition update_items :: "pydict \<Rightarrow> (string \<times> json) list \<Rightarrow> pydict" where
  "update_items d kvs = fold (\<lambda>(k, v) m. m(KStr k \<mapsto> v)) kvs d"

text \<open>The keys of the dictionary parsed from a JSON object, in insertion order.\<close>

definition dict_keys :: "(string \<times> json) list \<Rightarrow> string list" where
  "dict_keys kvs = rev (remdups (rev (map fst kvs)))"

definition bad_length :: "nat \<Rightarrow> nat \<Rightarrow> string" where
  "bad_length i n = ''dictionary update sequence element #'' @ dec_nat i @ '' has length '' @
     dec_nat n @ ''; 2 is required''"

fun pair_of :: "nat \<Rightarrow> json \<Rightarrow> string + (json \<times> json)" where
  "pair_of i (JArr xs) = (case xs of [k, v] \<Rightarrow> Inr (k, v) | _ \<Rightarrow> Inl (bad_length i (length xs)))"
| "pair_of i (JStr s) =
     (case s of [a, b] \<Rightarrow> Inr (JStr [a], JStr [b]) | _ \<Rightarrow> Inl (bad_length i (length s)))"
| "pair_of i (JObj kvs) =
     (case dict_keys kvs of [a, b] \<Rightarrow> Inr (JStr a, JStr b)
      | ks \<Rightarrow> Inl (bad_length i (length ks)))"
| "pair_of i e =
     Inl (''cannot convert dictionary update sequence element #'' @ dec_nat i @ '' to a sequence'')"

fun update_pairs :: "pydict \<Rightarrow> nat \<Rightarrow> json list \<Rightarrow> string + pydict" where
  "update_pairs d i [] = Inr d"
| "update_pairs d i (e # es) =
     (case pair_of i e of
        Inl err \<Rightarrow> Inl err
      | Inr (k, v) \<Rightarrow>
          (case hash_key k of
             None \<Rightarrow> Inl (''unhashable type: '' @ [CHR 0x27] @ type_name k @ [CHR 0x27])
           | Some hk \<Rightarrow> update_pairs (d(hk \<mapsto> v)) (Suc i) es))"

fun dict_update :: "pydict \<Rightarrow> json \<Rightarrow> string + pydict" where
  "dict_update d (JObj kvs) = Inr (update_items d kvs)"
| "dict_update d (JArr es) = update_pairs d 0 es"
| "dict_update d (JStr s) = update_pairs d 0 (map (\<lambda>c. JStr [c]) s)"
| "dict_update d v = Inl ([CHR 0x27] @ type_name v @ [CHR 0x27] @ '' object is not iterable'')"

definition config_failure :: "'w runtime \<Rightarrow> string \<Rightarrow> event" where
  "config_failure rt e = Print [Text (''Failed to read config '' @ CONFIG_PATH rt @ '': '' @ e)]"

definition load_config :: "'w runtime \<Rightarrow> 'w \<Rightarrow> pydict \<times> 'w \<times> event list" where
  "load_config rt w =
     (case open_and_load rt w of
        (FileNotFoundError, w') \<Rightarrow> (DEFAULT_CONFIG, w', [])
      | (OtherException e, w') \<Rightarrow> (DEFAULT_CONFIG, w', [config_failure rt e])
      | (Loaded cfg, w') \<Rightarrow>
          (case dict_update DEFAULT_CONFIG cfg of
             Inr d \<Rightarrow> (d, w', [])
           | Inl e \<Rightarrow> (DEFAULT_CONFIG, w', [config_failure rt e])))"

section \<open>Running commands\<close>

text \<open>
  \<^verbatim>\<open>subprocess.run(cmd, cwd=cwd, stdout=subprocess.PIPE, stderr=..., text=True, shell=True)\<close>.
  The text captured as \<^verbatim>\<open>stdout\<close> is what the process wrote to its standard output and,
  when \<^verbatim>\<open>stderr=subprocess.STDOUT\<close>, to its standard error as well, in the order written.
\<close>

datatype redirect = PIPE | STDOUT | Inherited

definition captured_stdout :: "redirect \<Rightarrow> (stream \<times> string) list \<Rightarrow> string" where
  "captured_stdout stderr_to chunks =
     concat (map snd (filter (\<lambda>(s, t). s = Stdout \<or> stderr_to = STDOUT) chunks))"

definition subprocess_run :: "'w runtime \<Rightarrow> string \<Rightarrow> 'w \<Rightarrow> proc_outcome \<times> 'w" where
  "subprocess_run rt cmd w =
     (case shell rt cmd w of
        (Exited returncode chunks, w') \<Rightarrow> (Completed returncode (captured_stdout STDOUT chunks), w')
      | (RunFailed e, w') \<Rightarrow> (RunException e, w'))"


text \<open>\<^verbatim>\<open>run\<close> on a command line that \<^verbatim>\<open>print\<close> accepts, as the loop below uses it.\<close>

definition run :: "'w runtime \<Rightarrow> string \<Rightarrow> 'w \<Rightarrow> (int \<times> string) \<times> 'w \<times> event list" where
  "run rt cmd w =
     (case subprocess_run rt cmd w of
        (r, w') \<Rightarrow>
          ((case r of
              Completed returncode out \<Rightarrow> (returncode, strip out)
            | RunException e \<Rightarrow> (1, e)),
           w', [Print [Text (''> '' @ cmd)], Subprocess cmd r]))"

definition has_worktree_changes :: "'w runtime \<Rightarrow> 'w \<Rightarrow> bool \<times> 'w \<times> event list" where
  "has_worktree_changes rt w =
     (case run rt ''git status --porcelain'' w of
        ((code, out), w', evs) \<Rightarrow>
          if code \<noteq> 0 then (False, w', evs @ [Print [Text ''git status failed:'', Text out]])
          else (strip out \<noteq> [], w', evs))"

section \<open>The watch loop\<close>

text \<open>\<^verbatim>\<open>float(x)\<close>; \<open>Inl\<close> carries the text of the exception raised.\<close>

fun py_float :: "'w runtime \<Rightarrow> json \<Rightarrow> string + pyfloat" where
  "py_float rt (JInt n) =
     (if 2 ^ 1024 - 2 ^ 970 \<le> \<bar>n\<bar> then Inl ''int too large to convert to float''
      else Inr (Finite (of_int n)))"
| "py_float rt (JFloat f) = Inr f"
| "py_float rt (JBool b) = Inr (Finite (if b then 1 else 0))"
| "py_float rt (JStr s) =
     (case float_of_str rt s of
        Some f \<Rightarrow> Inr f
      | None \<Rightarrow> Inl (''could not convert string to float: '' @ repr_of rt (JStr s)))"
| "py_float rt v =
     Inl (''float() argument must be a string or a real number, not '' @
          [CHR 0x27] @ type_name v @ [CHR 0x27])"

text \<open>\<^verbatim>\<open>str(x)\<close>, as an f-string formats a value.\<close>

fun py_str :: "'w runtime \<Rightarrow> json \<Rightarrow> string" where
  "py_str rt (JStr s) = s"
| "py_str rt JNull = ''None''"
| "py_str rt (JBool b) = (if b then ''True'' else ''False'')"
| "py_str rt (JInt n) = str_int n"
| "py_str rt v = repr_of rt v"

text \<open>The locals of \<^verbatim>\<open>main\<close> that the loop reads.\<close>

record params =
  cfg :: pydict
  delay :: pyfloat
  debounce :: pyfloat
  branch :: json
  push :: bool
  include_untracked :: bool

datatype step = Continue | Interrupted | Raised string

text \<open>\<^verbatim>\<open>time.sleep(delay)\<close>, which ends every pass of the loop body.\<close>

definition sleep_delay ::
  "'w runtime \<Rightarrow> params \<Rightarrow> rat \<Rightarrow> 'w \<Rightarrow> event list \<Rightarrow> step \<times> rat \<times> 'w \<times> event list" where
  "sleep_delay rt p lct w evs =
     (case time_sleep rt (delay p) w of
        (r, w') \<Rightarrow>
          ((case r of Awake \<Rightarrow> Continue | KeyboardInterrupt \<Rightarrow> Interrupted
            | SleepException e \<Rightarrow> Raised e),
           lct, w', evs @ [Sleep (delay p)]))"

definition timestamp :: "datetime \<Rightarrow> string" where
  "timestamp dt = isoformat (dt\<lparr>microsecond := 0\<rparr>) @ ''Z''"

definition commit_msg :: "'w runtime \<Rightarrow> pydict \<Rightarrow> datetime \<Rightarrow> string" where
  "commit_msg rt c dt =
     py_str rt (dict_get c ''commit_message'' (JStr ''autosave: update'')) @ '' - '' @ timestamp dt"

definition commit_cmd :: "string \<Rightarrow> string" where
  "commit_cmd msg = ''git commit -m '' @ [dquote] @ msg @ [dquote]"

definition push_cmd :: "'w runtime \<Rightarrow> json \<Rightarrow> string" where
  "push_cmd rt b = ''git push origin '' @ py_str rt b"

text \<open>
  Lines 109 to 126: the commit and the optional push, then the sleep of line 128.
  \<open>lct\<close> is \<^verbatim>\<open>last_commit_time\<close>.
\<close>

definition commit_and_push ::
  "'w runtime \<Rightarrow> params \<Rightarrow> rat \<Rightarrow> 'w \<Rightarrow> event list \<Rightarrow> step \<times> rat \<times> 'w \<times> event list" where
  "commit_and_push rt p lct w evs =
     (case utcnow rt w of
        (dt, w1) \<Rightarrow>
          let msg = commit_msg rt (cfg p) dt in
          (case run rt (commit_cmd msg) w1 of
             ((code, out), w2, e2) \<Rightarrow>
               if code \<noteq> 0 then
                 sleep_delay rt p lct w2
                   (evs @ [UtcNow dt] @ e2 @ [Print [Text ''git commit failed:'', Text out]])
               else
                 (case time_time rt w2 of
                    (t, w3) \<Rightarrow>
                      let evs3 = evs @ [UtcNow dt] @ e2 @
                                 [Print [Text ''Committed:'', Text msg], TimeTime t] in
                      if push p then
                        (case run rt (push_cmd rt (branch p)) w3 of
                           ((code', out'), w4, e4) \<Rightarrow>
                             if code' \<noteq> 0 then
                               sleep_delay rt p t w4
                                 (evs3 @ e4 @ [Print [Text ''git push failed:'', Text out']])
                             else
                               sleep_delay rt p t w4
                                 (evs3 @ e4 @ [Print [Text ''Pushed to origin'', Val (branch p)]]))
                      else sleep_delay rt p t w3 evs3)))"

text \<open>One pass of the body of \<^verbatim>\<open>while True\<close> (lines 82 to 128).\<close>

definition iteration ::
  "'w runtime \<Rightarrow> params \<Rightarrow> rat \<Rightarrow> 'w \<Rightarrow> step \<times> rat \<times> 'w \<times> event list" where
  "iteration rt p lct w =
     (case has_worktree_changes rt w of
        (changed, w1, e1) \<Rightarrow>
          if changed then
            (case time_time rt w1 of
               (now, w2) \<Rightarrow>
                 if pyfloat_less (Finite (now - lct)) (debounce p) then
                   sleep_delay rt p lct w2
                     (e1 @ [TimeTime now, Print [Text ''Changes detected but debouncing...'']])
                 else
                   (case run rt ''git add -A'' w2 of
                      ((code, out), w3, e3) \<Rightarrow>
                        if code \<noteq> 0 then
                          sleep_delay rt p lct w3
                            (e1 @ [TimeTime now] @ e3 @ [Print [Text ''git add failed:'', Text out]])
                        else
                          (case run rt ''git diff --cached --name-only'' w3 of
                             ((code', out'), w4, e4) \<Rightarrow>
                               if code' \<noteq> 0 then
                                 sleep_delay rt p lct w4
                                   (e1 @ [TimeTime now] @ e3 @ e4 @
                                    [Print [Text ''git diff --cached failed:'', Text out']])
                               else if strip out' = [] then
                                 sleep_delay rt p lct w4
                                   (e1 @ [TimeTime now] @ e3 @ e4 @
                                    [Print [Text ''Nothing staged to commit (skipping).'']])
                               else
                                 commit_and_push rt p lct w4 (e1 @ [TimeTime now] @ e3 @ e4))))
          else sleep_delay rt p lct w1 e1)"

datatype exit_status = SysExit int | Returned | Traceback string | StillRunning

text \<open>
  The loop inside \<^verbatim>\<open>try\<close>, with its \<^verbatim>\<open>except KeyboardInterrupt\<close>. It has no exit of
  its own: the first argument bounds the number of passes observed, and
  \<^const>\<open>StillRunning\<close> is the answer when the loop is still going after them.
\<close>

fun watch :: "nat \<Rightarrow> 'w runtime \<Rightarrow> params \<Rightarrow> rat \<Rightarrow> 'w \<Rightarrow> exit_status \<times> rat \<times> 'w \<times> event list" where
  "watch 0 rt p lct w = (StillRunning, lct, w, [])"
| "watch (Suc n) rt p lct w =
     (case iteration rt p lct w of
        (Continue, lct', w', evs) \<Rightarrow>
          (case watch n rt p lct' w' of (r, l, w'', evs') \<Rightarrow> (r, l, w'', evs @ evs'))
      | (Interrupted, lct', w', evs) \<Rightarrow>
          (Returned, lct', w',
           evs @ [Print [Text (newline # ''Autocommit watcher stopped by user.'')]])
      | (Raised e, lct', w', evs) \<Rightarrow> (Traceback e, lct', w', evs))"

text \<open>Lines 74 to 78: the conversions before the loop; an exception of \<^verbatim>\<open>float\<close> is not caught.\<close>

definition read_params :: "'w runtime \<Rightarrow> pydict \<Rightarrow> string + params" where
  "read_params rt c =
     (case py_float rt (dict_get c ''delay_seconds'' (JInt 2)) of
        Inl e \<Rightarrow> Inl e
      | Inr dl \<Rightarrow>
          (case py_float rt (dict_get c ''debounce_seconds'' (JInt 5)) of
             Inl e \<Rightarrow> Inl e
           | Inr db \<Rightarrow>
               Inr \<lparr>cfg = c, delay = dl, debounce = db,
                    branch = dict_get c ''branch'' (JStr ''main''),
                    push = truthy (dict_get c ''push'' (JBool True)),
                    include_untracked = truthy (dict_get c ''include_untracked'' (JBool True))\<rparr>))"

definition main :: "nat \<Rightarrow> 'w runtime \<Rightarrow> 'w \<Rightarrow> exit_status \<times> rat \<times> 'w \<times> event list" where
  "main n rt w =
     (case load_config rt w of
        (c, w1, e1) \<Rightarrow>
          let evs = e1 @ [Print [Text ''Auto-commit config:'', Dict c]];
              last_commit_time = 0
          in
          if \<not> truthy (dict_get c ''enabled'' (JBool True)) then
            (SysExit 0, last_commit_time, w1,
             evs @ [Print [Text ''Autocommit is disabled in config. Exiting.'']])
          else
            (case read_params rt c of
               Inl e \<Rightarrow> (Traceback e, last_commit_time, w1, evs)
             | Inr p \<Rightarrow>
                 (case watch n rt p last_commit_time w1 of
                    (r, l, w2, e2) \<Rightarrow> (r, l, w2, evs @ e2))))"

section \<open>Observations on a run\<close>

text \<open>The commands handed to \<^verbatim>\<open>subprocess.run\<close>, in order.\<close>

fun commands :: "event list \<Rightarrow> string list" where
  "commands [] = []"
| "commands (Subprocess c r # es) = c # commands es"
| "commands (e # es) = commands es"

definition trace :: "'a \<times> 'b \<times> 'c \<times> event list \<Rightarrow> event list" where
  "trace r = snd (snd (snd r))"

definition last_commit_time :: "'a \<times> rat \<times> 'c \<times> 'd \<Rightarrow> rat" where
  "last_commit_time r = fst (snd r)"

text \<open>
  The shape of the timestamp, \<^verbatim>\<open>\d{4}-\d{2}-\d{2}T\d{2}:\d{2}:\d{2}Z\<close>, and of the whole
  message with the default prefix, as anchored patterns of literals and ASCII digits.
\<close>

definition is_digit :: "char \<Rightarrow> bool" where
  "is_digit c = (c \<in> set ''0123456789'')"

text \<open>The number that a string of ASCII digits denotes, as \<^verbatim>\<open>int(s)\<close> reads it.\<close>

definition digit_value :: "char \<Rightarrow> nat" where
  "digit_value c = of_char c - 48"

definition decimal_value :: "string \<Rightarrow> nat" where
  "decimal_value s = foldl (\<lambda>n c. 10 * n + digit_value c) 0 s"

datatype pat = Lit char | Digit

fun matches :: "pat list \<Rightarrow> string \<Rightarrow> bool" where
  "matches [] s = (s = [])"
| "matches (Lit c # ps) s = (case s of [] \<Rightarrow> False | x # xs \<Rightarrow> x = c \<and> matches ps xs)"
| "matches (Digit # ps) s = (case s of [] \<Rightarrow> False | x # xs \<Rightarrow> is_digit x \<and> matches ps xs)"

definition timestamp_pattern :: "pat list" where
  "timestamp_pattern =
     replicate 4 Digit @ [Lit CHR ''-''] @ replicate 2 Digit @ [Lit CHR ''-''] @
     replicate 2 Digit @ [Lit CHR ''T''] @ replicate 2 Digit @ [Lit CHR '':''] @
     replicate 2 Digit @ [Lit CHR '':''] @ replicate 2 Digit @ [Lit CHR ''Z'']"

definition default_message_pattern :: "pat list" where
  "default_message_pattern = map Lit ''autosave: update - '' @ timestamp_pattern"

text \<open>
  The world after \<open>k\<close> passes of the loop in which no change was detected and the sleep
  returned, with the trace of those passes.
\<close>

fun idle_passes :: "nat \<Rightarrow> 'w runtime \<Rightarrow> params \<Rightarrow> 'w \<Rightarrow> ('w \<times> event list) option" where
  "idle_passes 0 rt p w = Some (w, [])"
| "idle_passes (Suc k) rt p w =
     (case has_worktree_changes rt w of
        (changed, w1, e1) \<Rightarrow>
          if changed then None
          else
            (case time_sleep rt (delay p) w1 of
               (Awake, w2) \<Rightarrow>
                 (case idle_passes k rt p w2 of
                    None \<Rightarrow> None
                  | Some (w3, e3) \<Rightarrow> Some (w3, e1 @ [Sleep (delay p)] @ e3))
             | (r, w2) \<Rightarrow> None))"

subsection \<open>A scripted world for concrete runs\<close>

text \<open>
  A world that answers from a script: the outcome of reading the configuration file, the
  outcomes of the commands in the order they are run (each writes to its standard output
  only), the readings of \<^verbatim>\<open>time.time()\<close> and the outcomes of the sleeps. When the script
  of sleeps is used up, the user interrupts. Its standard output encodes ASCII only.
\<close>

record script =
  config_file :: load_outcome
  answers :: "proc_outcome list"
  clock :: "rat list"
  wakeups :: "sleep_outcome list"

definition scripted :: "script runtime" where
  "scripted =
     \<lparr>open_and_load = (\<lambda>w. (config_file w, w)),
      shell = (\<lambda>cmd w.
        case answers w of
          [] \<Rightarrow> (RunFailed ''no answer'', w)
        | r # rs \<Rightarrow>
            (case r of
               Completed rc out \<Rightarrow> (Exited rc [(Stdout, out)], w\<lparr>answers := rs\<rparr>)
             | RunException e \<Rightarrow> (RunFailed e, w\<lparr>answers := rs\<rparr>))),
      time_time = (\<lambda>w. case clock w of [] \<Rightarrow> (0, w) | t # ts \<Rightarrow> (t, w\<lparr>clock := ts\<rparr>)),
      utcnow = (\<lambda>w.
        (\<lparr>year = 2024, month = 2, day = 29, hour = 13, minute = 5, second = 9,
          microsecond = 123456\<rparr>, w)),
      time_sleep = (\<lambda>d w.
        case wakeups w of
          [] \<Rightarrow> (KeyboardInterrupt, w)
        | r # rs \<Rightarrow> (r, w\<lparr>wakeups := rs\<rparr>)),
      float_of_str = (\<lambda>s. None),
      repr_of = (\<lambda>j. ''?''),
      CONFIG_PATH = ''/repo/.vscode/autocommit.json'',
      print_error = (\<lambda>s.
        if list_all (\<lambda>c. (of_char c :: nat) < 128) s then None
        else Some ''ascii codec cannot encode the text'')\<rparr>"

definition default_params :: params where
  "default_params =
     \<lparr>cfg = DEFAULT_CONFIG, delay = Finite 2, debounce = Finite 5, branch = JStr ''main'',
      push = True, include_untracked = True\<rparr>"

section \<open>Text: stripping and decimal digits\<close>

lemma strip_eq_Nil: "strip s = [] \<longleftrightarrow> (\<forall>c\<in>set s. py_isspace c)"
proof
  assume "strip s = []"
  then have "\<forall>c\<in>set (dropWhile py_isspace s). py_isspace c"
    by (simp add: strip_def)
  then have "dropWhile py_isspace s = []"
    by (metis hd_dropWhile list.set_sel(1))
  then show "\<forall>c\<in>set s. py_isspace c"
    by simp
next
  assume "\<forall>c\<in>set s. py_isspace c"
  then show "strip s = []"
    by (auto simp: strip_def dest: set_dropWhileD)
qed

lemma strip_Nil [simp]: "strip [] = []"
  by (simp add: strip_def)

lemma strip_strip_Nil: "strip (strip s) = [] \<longleftrightarrow> strip s = []"
proof
  assume a: "strip (strip s) = []"
  show "strip s = []"
  proof (rule ccontr)
    assume n: "strip s \<noteq> []"
    define u where "u = dropWhile py_isspace (rev (dropWhile py_isspace s))"
    have su: "strip s = rev u" by (simp add: strip_def u_def)
    with n have "u \<noteq> []" by simp
    then have "\<not> py_isspace (hd u)" unfolding u_def by (rule hd_dropWhile)
    moreover have "hd u \<in> set (strip s)" using \<open>u \<noteq> []\<close> su by simp
    ultimately show False using a by (auto simp: strip_eq_Nil)
  qed
qed simp

lemma commands_append [simp]: "commands (xs @ ys) = commands xs @ commands ys"
  by (induction xs rule: commands.induct) auto

lemma dec_nat_digits: "\<forall>c\<in>set (dec_nat n). is_digit c"
proof (induction n rule: dec_nat.induct)
  case (1 n)
  have d: "\<And>k. k < 10 \<Longrightarrow> is_digit (digit_char k)"
    by (simp add: is_digit_def digit_char_def del: set_simps)
  show ?case using 1 d[of n] d[of "n mod 10"]
    by (subst dec_nat.simps) auto
qed

lemma dec_nat_length: "n < 10 ^ k \<Longrightarrow> 0 < k \<Longrightarrow> length (dec_nat n) \<le> k"
proof (induction n arbitrary: k rule: dec_nat.induct)
  case (1 n)
  show ?case
  proof (cases "n < 10")
    case True
    then show ?thesis using 1(3) by (subst dec_nat.simps) simp
  next
    case False
    obtain j where k: "k = Suc j" using 1(3) by (cases k) auto
    have "0 < j" using False 1(2) k by (cases j) auto
    moreover have "n div 10 < 10 ^ j" using 1(2) k by (simp add: less_mult_imp_div_less)
    ultimately have "length (dec_nat (n div 10)) \<le> j" using 1(1)[OF False] by simp
    then show ?thesis using False k by (subst dec_nat.simps) simp
  qed
qed

section \<open>The command runner\<close>

lemma run_Completed:
  "subprocess_run rt cmd w = (Completed rc out, w') \<Longrightarrow>
   run rt cmd w =
     ((rc, strip out), w', [Print [Text (''> '' @ cmd)], Subprocess cmd (Completed rc out)])"
  by (simp add: run_def)


lemma commands_run [simp]: "commands (snd (snd (run rt cmd w))) = [cmd]"
  by (simp add: run_def split: prod.splits)







section \<open>The change detector\<close>




section \<open>The configuration loader\<close>

lemma update_items_Cons: "update_items d ((k, v) # kvs) = update_items (d(KStr k \<mapsto> v)) kvs"
  by (simp add: update_items_def)

lemma update_items_KStr:
  "update_items d kvs (KStr s) =
     (case map_of (rev kvs) s of Some v \<Rightarrow> Some v | None \<Rightarrow> d (KStr s))"
proof (induction kvs arbitrary: d)
  case Nil
  then show ?case by (simp add: update_items_def)
next
  case (Cons kv kvs)
  obtain k v where kv: "kv = (k, v)" by (cases kv)
  show ?case
    by (simp add: kv update_items_Cons Cons.IH map_add_def split: option.splits)
qed

lemma update_items_other: "\<forall>s. k \<noteq> KStr s \<Longrightarrow> update_items d kvs k = d k"
proof (induction kvs arbitrary: d)
  case Nil
  then show ?case by (simp add: update_items_def)
next
  case (Cons kv kvs)
  obtain a v where kv: "kv = (a, v)" by (cases kv)
  show ?case using Cons.prems by (simp add: kv update_items_Cons Cons.IH)
qed

lemma dom_update_items: "dom (update_items d kvs) = dom d \<union> KStr ` fst ` set kvs"
proof (induction kvs arbitrary: d)
  case Nil
  then show ?case by (simp add: update_items_def)
next
  case (Cons kv kvs)
  obtain a v where kv: "kv = (a, v)" by (cases kv)
  show ?case by (auto simp: kv update_items_Cons Cons.IH)
qed

lemma config_keys_dom: "k \<in> set config_keys \<Longrightarrow> KStr k \<in> dom DEFAULT_CONFIG"
  by (auto simp: config_keys_def DEFAULT_CONFIG_def)

lemma DEFAULT_CONFIG_other: "\<forall>s. k \<noteq> KStr s \<Longrightarrow> DEFAULT_CONFIG k = None"
  by (simp add: DEFAULT_CONFIG_def)



text \<open>
  C6: for a configuration file whose content is a JSON object, \<^verbatim>\<open>load_config\<close> returns
  the defaults overridden key by key: a key of the file has the (last) value the file
  gives it, every other key keeps its default, nothing is reported, and when the keys of
  the file are among the configuration keys the result has exactly the keys of the
  default record.
\<close>

theorem load_config_overrides:
  assumes "open_and_load rt w = (Loaded (JObj kvs), w')"
  shows "\<exists>d. load_config rt w = (d, w', []) \<and>
     (\<forall>k. d (KStr k) =
        (case map_of (rev kvs) k of Some v \<Rightarrow> Some v | None \<Rightarrow> DEFAULT_CONFIG (KStr k))) \<and>
     (\<forall>k. (\<forall>s. k \<noteq> KStr s) \<longrightarrow> d k = None) \<and>
     (set (map fst kvs) \<subseteq> set config_keys \<longrightarrow> dom d = dom DEFAULT_CONFIG)"
proof -
  let ?d = "update_items DEFAULT_CONFIG kvs"
  have "load_config rt w = (?d, w', [])"
    using assms by (simp add: load_config_def)
  moreover have "\<forall>k. ?d (KStr k) =
        (case map_of (rev kvs) k of Some v \<Rightarrow> Some v | None \<Rightarrow> DEFAULT_CONFIG (KStr k))"
    by (simp add: update_items_KStr)
  moreover have "\<forall>k. (\<forall>s. k \<noteq> KStr s) \<longrightarrow> ?d k = None"
    by (simp add: update_items_other DEFAULT_CONFIG_other)
  moreover have "set (map fst kvs) \<subseteq> set config_keys \<longrightarrow> dom ?d = dom DEFAULT_CONFIG"
    using config_keys_dom by (auto simp: dom_update_items)
  ultimately show ?thesis by blast
qed

theorem load_config_overrides_witness:
  "fst (load_config scripted
     \<lparr>config_file = Loaded (JObj [(''push'', JBool False), (''delay_seconds'', JInt 1),
        (''delay_seconds'', JFloat (Finite (1 / 2)))]),
      answers = [], clock = [], wakeups = []\<rparr>) (KStr ''push'') = Some (JBool False) \<and>
   fst (load_config scripted
     \<lparr>config_file = Loaded (JObj [(''push'', JBool False), (''delay_seconds'', JInt 1),
        (''delay_seconds'', JFloat (Finite (1 / 2)))]),
      answers = [], clock = [], wakeups = []\<rparr>) (KStr ''delay_seconds'') =
     Some (JFloat (Finite (1 / 2))) \<and>
   fst (load_config scripted
     \<lparr>config_file = Loaded (JObj [(''push'', JBool False), (''delay_seconds'', JInt 1),
        (''delay_seconds'', JFloat (Finite (1 / 2)))]),
      answers = [], clock = [], wakeups = []\<rparr>) (KStr ''branch'') = Some (JStr ''main'') \<and>
   dom (fst (load_config scripted
     \<lparr>config_file = Loaded (JObj [(''push'', JBool False), (''delay_seconds'', JInt 1),
        (''delay_seconds'', JFloat (Finite (1 / 2)))]),
      answers = [], clock = [], wakeups = []\<rparr>)) = dom DEFAULT_CONFIG"
proof -
  let ?kvs = "[(''push'', JBool False), (''delay_seconds'', JInt 1),
        (''delay_seconds'', JFloat (Finite (1 / 2)))]"
  let ?w = "\<lparr>config_file = Loaded (JObj ?kvs), answers = [], clock = [], wakeups = []\<rparr>"
  have h: "open_and_load scripted ?w = (Loaded (JObj ?kvs), ?w)"
    by (simp add: scripted_def subprocess_run_def captured_stdout_def)
  have s: "set (map fst ?kvs) \<subseteq> set config_keys"
    by (simp add: config_keys_def)
  from load_config_overrides [OF h] s obtain d where
    d: "load_config scripted ?w = (d, ?w, [])"
    and k: "\<And>k. d (KStr k) =
        (case map_of (rev ?kvs) k of Some v \<Rightarrow> Some v | None \<Rightarrow> DEFAULT_CONFIG (KStr k))"
    and dm: "dom d = dom DEFAULT_CONFIG"
    by blast
  have "d (KStr ''push'') = Some (JBool False)"
    and "d (KStr ''delay_seconds'') = Some (JFloat (Finite (1 / 2)))"
    and "d (KStr ''branch'') = Some (JStr ''main'')"
    by (simp_all add: k DEFAULT_CONFIG_def)
  with d dm show ?thesis by simp
qed



section \<open>The commit message\<close>

lemma matches_append: "matches ps s \<Longrightarrow> matches qs t \<Longrightarrow> matches (ps @ qs) (s @ t)"
  by (induction ps s rule: matches.induct) (auto split: list.splits)

lemma matches_map_Lit: "matches (map Lit s) s"
  by (induction s) auto

lemma matches_digits:
  "length s = n \<Longrightarrow> \<forall>c\<in>set s. is_digit c \<Longrightarrow> matches (replicate n Digit) s"
  by (induction s arbitrary: n) auto

lemma zero_pad_digits:
  assumes "n < 10 ^ w" and "0 < w"
  shows "matches (replicate w Digit) (zero_pad w n)"
proof (rule matches_digits)
  from dec_nat_length [OF assms] show "length (zero_pad w n) = w"
    by (simp add: zero_pad_def)
  have "is_digit CHR ''0''" by (simp add: is_digit_def)
  then show "\<forall>c\<in>set (zero_pad w n). is_digit c"
    using dec_nat_digits [of n] by (auto simp: zero_pad_def)
qed

lemma matches_Lit: "matches [Lit c] [c]"
  by simp

lemma timestamp_matches:
  assumes "valid_datetime dt"
  shows "matches timestamp_pattern (timestamp dt)"
proof -
  have y: "matches (replicate 4 Digit) (zero_pad 4 (year dt))"
    using assms by (intro zero_pad_digits) (simp_all add: valid_datetime_def)
  have mo: "matches (replicate 2 Digit) (zero_pad 2 (month dt))"
    using assms by (intro zero_pad_digits) (simp_all add: valid_datetime_def)
  have "day dt \<le> 31"
    using assms by (simp add: valid_datetime_def days_in_month_def split: if_splits)
  then have d: "matches (replicate 2 Digit) (zero_pad 2 (day dt))"
    by (intro zero_pad_digits) simp_all
  have h: "matches (replicate 2 Digit) (zero_pad 2 (hour dt))"
    using assms by (intro zero_pad_digits) (simp_all add: valid_datetime_def)
  have mi: "matches (replicate 2 Digit) (zero_pad 2 (minute dt))"
    using assms by (intro zero_pad_digits) (simp_all add: valid_datetime_def)
  have s: "matches (replicate 2 Digit) (zero_pad 2 (second dt))"
    using assms by (intro zero_pad_digits) (simp_all add: valid_datetime_def)
  have "timestamp dt =
     zero_pad 4 (year dt) @ ''-'' @ zero_pad 2 (month dt) @ ''-'' @ zero_pad 2 (day dt) @ ''T'' @
     zero_pad 2 (hour dt) @ '':'' @ zero_pad 2 (minute dt) @ '':'' @ zero_pad 2 (second dt) @ ''Z''"
    by (simp add: timestamp_def isoformat_def)
  then show ?thesis
    unfolding timestamp_pattern_def
    by (simp only:) (intro matches_append y mo d h mi s matches_Lit)
qed

lemma run_commands: "run rt cmd w = (r, w', evs) \<Longrightarrow> commands evs = [cmd]"
  by (auto simp: run_def split: prod.splits)

lemma trace_sleep_delay [simp]: "trace (sleep_delay rt p l w evs) = evs @ [Sleep (delay p)]"
  by (simp add: sleep_delay_def trace_def split: prod.splits)

lemma last_commit_time_sleep_delay [simp]: "last_commit_time (sleep_delay rt p l w evs) = l"
  by (simp add: sleep_delay_def last_commit_time_def split: prod.splits)

lemma commit_and_push_commands:
  assumes "utcnow rt w = (dt, w1)"
  shows "commands (trace (commit_and_push rt p l w evs)) =
     commands evs @ commit_cmd (commit_msg rt (cfg p) dt) #
       (if fst (fst (run rt (commit_cmd (commit_msg rt (cfg p) dt)) w1)) = 0 \<and> push p
        then [push_cmd rt (branch p)] else [])"
  using assms
  by (auto simp: commit_and_push_def Let_def dest!: run_commands split: prod.splits)

lemma digit_value_digit_char: "k < 10 \<Longrightarrow> digit_value (digit_char k) = k"
proof -
  assume "k < 10"
  then have "k \<in> {0, 1, 2, 3, 4, 5, 6, 7, 8, 9}" by auto
  then show ?thesis
    by (auto simp: digit_value_def digit_char_def)
qed

lemma decimal_value_snoc: "decimal_value (s @ [c]) = 10 * decimal_value s + digit_value c"
  by (simp add: decimal_value_def)

lemma decimal_value_dec_nat: "decimal_value (dec_nat n) = n"
proof (induction n rule: dec_nat.induct)
  case (1 n)
  show ?case
  proof (cases "n < 10")
    case True
    then show ?thesis
      by (subst dec_nat.simps) (simp add: decimal_value_def digit_value_digit_char)
  next
    case False
    then show ?thesis
      using 1 by (subst dec_nat.simps) (simp add: decimal_value_snoc digit_value_digit_char)
  qed
qed

lemma decimal_value_zeros: "decimal_value (replicate k CHR ''0'' @ s) = decimal_value s"
  by (induction k) (simp_all add: decimal_value_def digit_value_def)

lemma decimal_value_zero_pad: "decimal_value (zero_pad w n) = n"
  by (simp add: zero_pad_def decimal_value_zeros decimal_value_dec_nat)

lemma length_zero_pad: "n < 10 ^ w \<Longrightarrow> 0 < w \<Longrightarrow> length (zero_pad w n) = w"
  using dec_nat_length [of n w] by (simp add: zero_pad_def)

lemma timestamp_eq:
  "timestamp dt =
     zero_pad 4 (year dt) @ ''-'' @ zero_pad 2 (month dt) @ ''-'' @ zero_pad 2 (day dt) @ ''T'' @
     zero_pad 2 (hour dt) @ '':'' @ zero_pad 2 (minute dt) @ '':'' @ zero_pad 2 (second dt) @ ''Z''"
  by (simp add: timestamp_def isoformat_def)

lemma timestamp_fields:
  assumes "valid_datetime dt"
  shows "decimal_value (take 4 (timestamp dt)) = year dt"
    and "decimal_value (take 2 (drop 5 (timestamp dt))) = month dt"
    and "decimal_value (take 2 (drop 8 (timestamp dt))) = day dt"
    and "decimal_value (take 2 (drop 11 (timestamp dt))) = hour dt"
    and "decimal_value (take 2 (drop 14 (timestamp dt))) = minute dt"
    and "decimal_value (take 2 (drop 17 (timestamp dt))) = second dt"
    and "length (timestamp dt) = 20"
proof -
  have "day dt \<le> 31"
    using assms by (simp add: valid_datetime_def days_in_month_def split: if_splits)
  then have l: "length (zero_pad 4 (year dt)) = 4" "length (zero_pad 2 (month dt)) = 2"
    "length (zero_pad 2 (day dt)) = 2" "length (zero_pad 2 (hour dt)) = 2"
    "length (zero_pad 2 (minute dt)) = 2" "length (zero_pad 2 (second dt)) = 2"
    using assms by (simp_all add: length_zero_pad valid_datetime_def)
  show "decimal_value (take 4 (timestamp dt)) = year dt"
    by (simp add: timestamp_eq l decimal_value_zero_pad)
  show "decimal_value (take 2 (drop 5 (timestamp dt))) = month dt"
    by (simp add: timestamp_eq l decimal_value_zero_pad)
  show "decimal_value (take 2 (drop 8 (timestamp dt))) = day dt"
    by (simp add: timestamp_eq l decimal_value_zero_pad)
  show "decimal_value (take 2 (drop 11 (timestamp dt))) = hour dt"
    by (simp add: timestamp_eq l decimal_value_zero_pad)
  show "decimal_value (take 2 (drop 14 (timestamp dt))) = minute dt"
    by (simp add: timestamp_eq l decimal_value_zero_pad)
  show "decimal_value (take 2 (drop 17 (timestamp dt))) = second dt"
    by (simp add: timestamp_eq l decimal_value_zero_pad)
  show "length (timestamp dt) = 20"
    by (simp add: timestamp_eq l)
qed

text \<open>
  C5: the commit message built by the loop is the \<^verbatim>\<open>str\<close> of the configured
  \<^verbatim>\<open>commit_message\<close>, then \<^verbatim>\<open>" - "\<close>, then the reading \<open>dt\<close> of the UTC clock in ISO 8601 at
  second precision followed by \<^verbatim>\<open>Z\<close>: year, month, day, hour, minute and second of \<open>dt\<close>,
  zero-padded to 4, 2, 2, 2, 2 and 2 digits, so that the digits of the stamp read back as
  those six fields, and the microseconds are dropped. With the default prefix the message
  has the shape \<^verbatim>\<open>^autosave: update - \d{4}-\d{2}-\d{2}T\d{2}:\d{2}:\d{2}Z$\<close>. The commit
  command the loop runs carries the message built from the clock reading taken just
  before it.
\<close>

theorem commit_message_format:
  assumes "valid_datetime dt"
  shows "commit_msg rt c dt =
       py_str rt (dict_get c ''commit_message'' (JStr ''autosave: update'')) @ '' - '' @
       timestamp dt \<and>
     (\<forall>s. c (KStr ''commit_message'') = Some (JStr s) \<longrightarrow>
        commit_msg rt c dt = s @ '' - '' @ timestamp dt) \<and>
     timestamp dt =
       zero_pad 4 (year dt) @ ''-'' @ zero_pad 2 (month dt) @ ''-'' @ zero_pad 2 (day dt) @
       ''T'' @ zero_pad 2 (hour dt) @ '':'' @ zero_pad 2 (minute dt) @ '':'' @
       zero_pad 2 (second dt) @ ''Z'' \<and>
     length (timestamp dt) = 20 \<and>
     decimal_value (take 4 (timestamp dt)) = year dt \<and>
     decimal_value (take 2 (drop 5 (timestamp dt))) = month dt \<and>
     decimal_value (take 2 (drop 8 (timestamp dt))) = day dt \<and>
     decimal_value (take 2 (drop 11 (timestamp dt))) = hour dt \<and>
     decimal_value (take 2 (drop 14 (timestamp dt))) = minute dt \<and>
     decimal_value (take 2 (drop 17 (timestamp dt))) = second dt \<and>
     matches timestamp_pattern (timestamp dt) \<and>
     matches default_message_pattern (commit_msg rt DEFAULT_CONFIG dt) \<and>
     (\<forall>w w1 p l. utcnow rt w = (dt, w1) \<longrightarrow>
        (\<exists>r rest. trace (commit_and_push rt p l w []) =
           UtcNow dt # Print [Text (''> '' @ commit_cmd (commit_msg rt (cfg p) dt))] #
           Subprocess (commit_cmd (commit_msg rt (cfg p) dt)) r # rest))"
proof -
  have d: "commit_msg rt DEFAULT_CONFIG dt = ''autosave: update - '' @ timestamp dt"
    by (simp add: commit_msg_def dict_get_def DEFAULT_CONFIG_def)
  have m: "matches default_message_pattern (commit_msg rt DEFAULT_CONFIG dt)"
    unfolding d default_message_pattern_def
    by (intro matches_append matches_map_Lit timestamp_matches assms)
  have t: "\<forall>w w1 p l. utcnow rt w = (dt, w1) \<longrightarrow>
        (\<exists>r rest. trace (commit_and_push rt p l w []) =
           UtcNow dt # Print [Text (''> '' @ commit_cmd (commit_msg rt (cfg p) dt))] #
           Subprocess (commit_cmd (commit_msg rt (cfg p) dt)) r # rest)"
    by (auto simp: commit_and_push_def run_def Let_def split: prod.splits)
  have a: "commit_msg rt c dt =
       py_str rt (dict_get c ''commit_message'' (JStr ''autosave: update'')) @ '' - '' @
       timestamp dt"
    by (simp add: commit_msg_def)
  have b: "\<forall>s. c (KStr ''commit_message'') = Some (JStr s) \<longrightarrow>
        commit_msg rt c dt = s @ '' - '' @ timestamp dt"
    by (simp add: commit_msg_def dict_get_def)
  from a b timestamp_eq [of dt] timestamp_fields [OF assms] timestamp_matches [OF assms] m t
  show ?thesis by (intro conjI)
qed

theorem commit_message_format_witness:
  "valid_datetime
     \<lparr>year = 2024, month = 2, day = 29, hour = 13, minute = 5, second = 9,
      microsecond = 123456\<rparr> \<and>
   commit_msg scripted DEFAULT_CONFIG
     \<lparr>year = 2024, month = 2, day = 29, hour = 13, minute = 5, second = 9,
      microsecond = 123456\<rparr> = ''autosave: update - 2024-02-29T13:05:09Z'' \<and>
   decimal_value (take 4 ''2024-02-29T13:05:09Z'') = 2024 \<and>
   decimal_value (take 2 (drop 17 ''2024-02-29T13:05:09Z'')) = 9 \<and>
   matches default_message_pattern ''autosave: update - 2024-02-29T13:05:09Z''"
proof -
  let ?dt = "\<lparr>year = 2024, month = 2, day = 29, hour = 13, minute = 5, second = 9,
      microsecond = 123456\<rparr>"
  have v: "valid_datetime ?dt"
    by (simp add: valid_datetime_def days_in_month_def is_leap_def)
  note f = commit_message_format [OF v, of scripted DEFAULT_CONFIG]
  have "timestamp ?dt =
       zero_pad 4 (year ?dt) @ ''-'' @ zero_pad 2 (month ?dt) @ ''-'' @ zero_pad 2 (day ?dt) @
       ''T'' @ zero_pad 2 (hour ?dt) @ '':'' @ zero_pad 2 (minute ?dt) @ '':'' @
       zero_pad 2 (second ?dt) @ ''Z''"
    using f by (elim conjE)
  then have t: "timestamp ?dt = ''2024-02-29T13:05:09Z''"
    by (simp add: zero_pad_def dec_nat.simps digit_char_def)
  have m: "commit_msg scripted DEFAULT_CONFIG ?dt = ''autosave: update - 2024-02-29T13:05:09Z''"
    using f t by (simp add: DEFAULT_CONFIG_def dict_get_def)
  have y: "decimal_value (take 4 (timestamp ?dt)) = year ?dt"
    using f by (elim conjE)
  have s: "decimal_value (take 2 (drop 17 (timestamp ?dt))) = second ?dt"
    using f by (elim conjE)
  have "matches default_message_pattern (commit_msg scripted DEFAULT_CONFIG ?dt)"
    using f by (elim conjE)
  with v m y s show ?thesis by (simp only: t) simp
qed

section \<open>One pass of the loop\<close>

lemma has_worktree_changes_True:
  assumes "subprocess_run rt ''git status --porcelain'' w = (Completed 0 out, w1)"
    and "\<exists>c\<in>set out. \<not> py_isspace c"
  shows "has_worktree_changes rt w =
     (True, w1, [Print [Text ''> git status --porcelain''],
                 Subprocess ''git status --porcelain'' (Completed 0 out)])"
proof -
  have "strip (strip out) \<noteq> []"
    using assms(2) by (simp only: strip_strip_Nil) (simp add: strip_eq_Nil)
  then show ?thesis
    using assms(1) by (simp add: has_worktree_changes_def run_Completed)
qed

lemma commit_and_push_trace: "\<exists>rest. trace (commit_and_push rt p l w evs) = evs @ rest"
  by (auto simp: commit_and_push_def Let_def split: prod.splits)

lemma commit_and_push_trace3:
  "\<exists>rest. trace (commit_and_push rt p l w (a # b # c # e3 @ e4)) = a # b # c # e3 @ rest"
  using commit_and_push_trace [of rt p l w "a # b # c # e3 @ e4"] by auto

lemma commands_Print [simp]: "commands (Print x # es) = commands es"
  and commands_TimeTime [simp]: "commands (TimeTime t # es) = commands es"
  and commands_Sleep [simp]: "commands (Sleep d # es) = commands es"
  by simp_all




text \<open>
  C3: in a pass where changes are detected, the debounce interval has elapsed and
  \<^verbatim>\<open>git add -A\<close> exits with status 0, if the output of
  \<^verbatim>\<open>git diff --cached --name-only\<close> is empty (or white space only) then the commands of
  the pass are the status query, the staging and the diff query and nothing else: no
  commit command is run, and \<^verbatim>\<open>last_commit_time\<close> is unchanged. When the diff query exits
  with status 0 the pass logs that nothing is staged and goes to the sleep.
\<close>

theorem nothing_staged_no_commit:
  assumes "subprocess_run rt ''git status --porcelain'' w = (Completed 0 out, w1)"
    and "\<exists>c\<in>set out. \<not> py_isspace c"
    and "time_time rt w1 = (now, w2)"
    and "\<not> pyfloat_less (Finite (now - l)) (debounce p)"
    and "subprocess_run rt ''git add -A'' w2 = (Completed 0 out3, w3)"
    and "subprocess_run rt ''git diff --cached --name-only'' w3 = (Completed rc out4, w4)"
    and "strip out4 = []"
  shows "commands (trace (iteration rt p l w)) =
           [''git status --porcelain'', ''git add -A'', ''git diff --cached --name-only''] \<and>
         (\<forall>m. commit_cmd m \<notin> set (commands (trace (iteration rt p l w)))) \<and>
         last_commit_time (iteration rt p l w) = l \<and>
         (rc = 0 \<longrightarrow>
            trace (iteration rt p l w) =
              [Print [Text ''> git status --porcelain''],
               Subprocess ''git status --porcelain'' (Completed 0 out),
               TimeTime now,
               Print [Text ''> git add -A''],
               Subprocess ''git add -A'' (Completed 0 out3),
               Print [Text ''> git diff --cached --name-only''],
               Subprocess ''git diff --cached --name-only'' (Completed 0 out4),
               Print [Text ''Nothing staged to commit (skipping).''],
               Sleep (delay p)])"
proof -
  note h = has_worktree_changes_True [OF assms(1,2)]
  note a = run_Completed [OF assms(5)]
  note d = run_Completed [OF assms(6)]
  let ?pre = "[Print [Text ''> git status --porcelain''],
               Subprocess ''git status --porcelain'' (Completed 0 out),
               TimeTime now,
               Print [Text ''> git add -A''],
               Subprocess ''git add -A'' (Completed 0 out3),
               Print [Text ''> git diff --cached --name-only''],
               Subprocess ''git diff --cached --name-only'' (Completed rc out4)]"
  have i: "iteration rt p l w =
      sleep_delay rt p l w4
        (?pre @ [if rc \<noteq> 0 then Print [Text ''git diff --cached failed:'', Text (strip out4)]
                 else Print [Text ''Nothing staged to commit (skipping).'']])"
    using assms(3,4,7) by (simp add: iteration_def h a d)
  have c: "commands (trace (iteration rt p l w)) =
           [''git status --porcelain'', ''git add -A'', ''git diff --cached --name-only'']"
    by (simp add: i)
  have "\<forall>m. commit_cmd m \<notin> set (commands (trace (iteration rt p l w)))"
    unfolding c by (simp add: commit_cmd_def)
  moreover have "last_commit_time (iteration rt p l w) = l"
    by (simp add: i)
  moreover have "rc = 0 \<longrightarrow> trace (iteration rt p l w) =
      ?pre @ [Print [Text ''Nothing staged to commit (skipping).''], Sleep (delay p)]"
    by (simp add: i)
  ultimately show ?thesis using c by simp
qed

theorem nothing_staged_no_commit_witness:
  "commands (trace (iteration scripted default_params 100
     \<lparr>config_file = FileNotFoundError,
      answers = [Completed 0 '' M a.py'', Completed 0 [], Completed 0 []],
      clock = [105], wakeups = [Awake]\<rparr>)) =
     [''git status --porcelain'', ''git add -A'', ''git diff --cached --name-only''] \<and>
   last_commit_time (iteration scripted default_params 100
     \<lparr>config_file = FileNotFoundError,
      answers = [Completed 0 '' M a.py'', Completed 0 [], Completed 0 []],
      clock = [105], wakeups = [Awake]\<rparr>) = 100 \<and>
   trace (iteration scripted default_params 100
     \<lparr>config_file = FileNotFoundError,
      answers = [Completed 0 '' M a.py'', Completed 0 [], Completed 0 []],
      clock = [105], wakeups = [Awake]\<rparr>) =
     [Print [Text ''> git status --porcelain''],
      Subprocess ''git status --porcelain'' (Completed 0 '' M a.py''),
      TimeTime 105,
      Print [Text ''> git add -A''],
      Subprocess ''git add -A'' (Completed 0 []),
      Print [Text ''> git diff --cached --name-only''],
      Subprocess ''git diff --cached --name-only'' (Completed 0 []),
      Print [Text ''Nothing staged to commit (skipping).''],
      Sleep (Finite 2)]"
proof -
  let ?w = "\<lparr>config_file = FileNotFoundError,
      answers = [Completed 0 '' M a.py'', Completed 0 [], Completed 0 []],
      clock = [105], wakeups = [Awake]\<rparr>"
  let ?w1 = "\<lparr>config_file = FileNotFoundError, answers = [Completed 0 [], Completed 0 []],
      clock = [105], wakeups = [Awake]\<rparr>"
  let ?w2 = "\<lparr>config_file = FileNotFoundError, answers = [Completed 0 [], Completed 0 []],
      clock = [], wakeups = [Awake]\<rparr>"
  let ?w3 = "\<lparr>config_file = FileNotFoundError, answers = [Completed 0 []],
      clock = [], wakeups = [Awake]\<rparr>"
  let ?w4 = "\<lparr>config_file = FileNotFoundError, answers = [],
      clock = [], wakeups = [Awake]\<rparr>"
  have n: "\<exists>c\<in>set '' M a.py''. \<not> py_isspace c"
    by (simp add: py_isspace_def)
  have h1: "subprocess_run scripted ''git status --porcelain'' ?w = (Completed 0 '' M a.py'', ?w1)"
    by (simp add: scripted_def subprocess_run_def captured_stdout_def)
  have h2: "time_time scripted ?w1 = (105, ?w2)"
    by (simp add: scripted_def subprocess_run_def captured_stdout_def)
  have h3: "\<not> pyfloat_less (Finite (105 - 100)) (debounce default_params)"
    by (simp add: default_params_def)
  have h4: "subprocess_run scripted ''git add -A'' ?w2 = (Completed 0 [], ?w3)"
    by (simp add: scripted_def subprocess_run_def captured_stdout_def)
  have h5: "subprocess_run scripted ''git diff --cached --name-only'' ?w3 = (Completed 0 [], ?w4)"
    by (simp add: scripted_def subprocess_run_def captured_stdout_def)
  have h6: "strip [] = []"
    by simp
  from nothing_staged_no_commit [OF h1 n h2 h3 h4 h5 h6]
  show ?thesis by (simp add: default_params_def)
qed

section \<open>When the time of the last commit changes\<close>



lemma not_commit_cmd [simp]:
  "''git status --porcelain'' \<noteq> commit_cmd m"
  "''git add -A'' \<noteq> commit_cmd m"
  "''git diff --cached --name-only'' \<noteq> commit_cmd m"
  "push_cmd rt b \<noteq> commit_cmd m"
  by (simp_all add: commit_cmd_def push_cmd_def)










section \<open>Startup\<close>

lemma commands_load_config: "load_config rt w = (c, w', evs) \<Longrightarrow> commands evs = []"
  by (auto simp: load_config_def config_failure_def
      split: prod.splits load_outcome.splits sum.splits)

lemma commit_msg_enabled [simp]:
  "commit_msg rt (c(KStr ''enabled'' \<mapsto> v)) dt = commit_msg rt c dt"
  by (simp add: commit_msg_def dict_get_def)

lemma sleep_delay_ignores_cfg [simp]:
  "sleep_delay rt (p\<lparr>cfg := c\<rparr>) l w evs = sleep_delay rt p l w evs"
  by (simp add: sleep_delay_def)

lemma commit_and_push_ignores_enabled [simp]:
  "commit_and_push rt (p\<lparr>cfg := (cfg p)(KStr ''enabled'' \<mapsto> v)\<rparr>) l w evs =
   commit_and_push rt p l w evs"
  by (simp add: commit_and_push_def Let_def split: prod.splits)





section \<open>The first change of a run\<close>

lemma commands_has_worktree_changes:
  "has_worktree_changes rt w = (b, w', evs) \<Longrightarrow> commands evs = [''git status --porcelain'']"
  by (auto simp: has_worktree_changes_def split: prod.splits if_splits dest: run_commands)

lemma idle_passes_commands:
  "idle_passes k rt p w = Some (wk, ek) \<Longrightarrow>
   commands ek = replicate k ''git status --porcelain''"
proof (induction k arbitrary: w ek)
  case 0
  then show ?case by simp
next
  case (Suc k)
  obtain changed w1 e1 where h: "has_worktree_changes rt w = (changed, w1, e1)"
    by (metis prod.exhaust)
  obtain r w2 where s: "time_sleep rt (delay p) w1 = (r, w2)"
    by (cases "time_sleep rt (delay p) w1")
  from Suc.prems h s obtain e3 where
    i: "idle_passes k rt p w2 = Some (wk, e3)" and e: "ek = e1 @ [Sleep (delay p)] @ e3"
    by (auto split: if_splits sleep_outcome.splits option.splits)
  show ?case
    using Suc.IH [OF i] commands_has_worktree_changes [OF h] by (simp add: e)
qed

lemma watch_idle:
  "idle_passes k rt p w = Some (wk, ek) \<Longrightarrow>
   watch (k + n) rt p l w =
     (case watch n rt p l wk of (r, l', w', evs) \<Rightarrow> (r, l', w', ek @ evs))"
proof (induction k arbitrary: w ek)
  case 0
  then show ?case by (simp split: prod.splits)
next
  case (Suc k)
  obtain changed w1 e1 where h: "has_worktree_changes rt w = (changed, w1, e1)"
    by (metis prod.exhaust)
  obtain r w2 where s: "time_sleep rt (delay p) w1 = (r, w2)"
    by (cases "time_sleep rt (delay p) w1")
  from Suc.prems h s obtain e3 where
    i: "idle_passes k rt p w2 = Some (wk, e3)" and e: "ek = e1 @ [Sleep (delay p)] @ e3"
    and c: "\<not> changed" and a: "r = Awake"
    by (auto split: if_splits sleep_outcome.splits option.splits)
  have "iteration rt p l w = (Continue, l, w2, e1 @ [Sleep (delay p)])"
    using h s c a by (simp add: iteration_def sleep_delay_def)
  then show ?case
    using Suc.IH [OF i] by (simp add: e split: prod.splits)
qed

lemma iteration_runs_add:
  assumes "subprocess_run rt ''git status --porcelain'' w = (Completed 0 out, w1)"
    and "\<exists>c\<in>set out. \<not> py_isspace c"
    and "time_time rt w1 = (now, w2)"
    and "\<not> pyfloat_less (Finite (now - l)) (debounce p)"
  shows "\<exists>rest. commands (trace (iteration rt p l w)) =
     ''git status --porcelain'' # ''git add -A'' # rest"
proof -
  note h = has_worktree_changes_True [OF assms(1,2)]
  obtain r3 w3 e3 where a: "run rt ''git add -A'' w2 = (r3, w3, e3)"
    by (metis prod.exhaust)
  have c3: "commands e3 = [''git add -A'']" by (rule run_commands [OF a])
  have "\<exists>rest. trace (iteration rt p l w) =
      [Print [Text ''> git status --porcelain''],
       Subprocess ''git status --porcelain'' (Completed 0 out), TimeTime now] @ e3 @ rest"
    using assms(3,4) a
    by (auto simp: iteration_def h commit_and_push_trace3 split: prod.splits)
  then obtain rest where "trace (iteration rt p l w) =
      [Print [Text ''> git status --porcelain''],
       Subprocess ''git status --porcelain'' (Completed 0 out), TimeTime now] @ e3 @ rest"
    by blast
  then show ?thesis by (simp add: c3)
qed

lemma watch_Suc_commands:
  "\<exists>rest. commands (trace (watch (Suc n) rt p l w)) =
     commands (trace (iteration rt p l w)) @ rest"
  by (auto simp: trace_def split: prod.splits step.splits)

text \<open>
  C10: \<^verbatim>\<open>last_commit_time\<close> is 0 when the loop is entered, and passes that detect no
  change leave it there. So in a run that gets to the loop, after any number \<open>k\<close> of
  such passes, the first pass that detects a change, at a clock reading \<open>now\<close> with
  \<^verbatim>\<open>debounce_seconds\<close> \<open>\<le> now\<close>, is not debounced: the commands of the run are the
  \<open>k + 1\<close> status queries and then \<^verbatim>\<open>git add -A\<close>.
\<close>

theorem first_change_passes_debounce:
  assumes "load_config rt w = (c, w0, e0)"
    and "truthy (dict_get c ''enabled'' (JBool True))"
    and "read_params rt c = Inr p"
    and "idle_passes k rt p w0 = Some (wk, ek)"
    and "subprocess_run rt ''git status --porcelain'' wk = (Completed 0 out, w1)"
    and "\<exists>c\<in>set out. \<not> py_isspace c"
    and "time_time rt w1 = (now, w2)"
    and "debounce p = Finite D"
    and "D \<le> now"
  shows "last_commit_time (main 0 rt w) = 0 \<and>
         last_commit_time (main k rt w) = 0 \<and>
         (\<exists>rest. commands (trace (main (k + Suc n) rt w)) =
            replicate (Suc k) ''git status --porcelain'' @ ''git add -A'' # rest)"
proof -
  have m: "\<And>j. main j rt w =
      (case watch j rt p 0 w0 of (r, l, w2, e2) \<Rightarrow>
         (r, l, w2, (e0 @ [Print [Text ''Auto-commit config:'', Dict c]]) @ e2))"
    using assms(1,2,3) by (simp add: main_def)
  have z: "last_commit_time (main 0 rt w) = 0"
    by (simp add: m last_commit_time_def)
  have zk: "last_commit_time (main k rt w) = 0"
    using watch_idle [OF assms(4), of 0 0] by (simp add: m last_commit_time_def)
  have "\<not> pyfloat_less (Finite (now - 0)) (debounce p)"
    using assms(8,9) by simp
  from iteration_runs_add [OF assms(5,6,7) this] obtain r1 where
    i: "commands (trace (iteration rt p 0 wk)) =
      ''git status --porcelain'' # ''git add -A'' # r1"
    by blast
  from watch_Suc_commands [of n rt p 0 wk] obtain r2 where
    s: "commands (trace (watch (Suc n) rt p 0 wk)) =
      commands (trace (iteration rt p 0 wk)) @ r2"
    by blast
  have "commands (trace (main (k + Suc n) rt w)) =
      commands ek @ commands (trace (watch (Suc n) rt p 0 wk))"
    using watch_idle [OF assms(4), of "Suc n" 0] commands_load_config [OF assms(1)]
    by (simp add: m trace_def del: watch.simps split: prod.splits)
  then have "commands (trace (main (k + Suc n) rt w)) =
      replicate (Suc k) ''git status --porcelain'' @ ''git add -A'' # (r1 @ r2)"
    by (simp add: s i idle_passes_commands [OF assms(4)] replicate_append_same
        del: watch.simps)
  then show ?thesis using z zk by blast
qed


theorem first_change_passes_debounce_witness:
  "take 3 (commands (trace (main (Suc (Suc 0)) scripted
     \<lparr>config_file = FileNotFoundError,
      answers = [Completed 0 [], Completed 0 '' M a.py'',
        Completed 1 ''fatal: index.lock exists''],
      clock = [1700000000], wakeups = [Awake, Awake]\<rparr>))) =
   [''git status --porcelain'', ''git status --porcelain'', ''git add -A'']"
proof -
  let ?w = "\<lparr>config_file = FileNotFoundError,
      answers = [Completed 0 [], Completed 0 '' M a.py'',
        Completed 1 ''fatal: index.lock exists''],
      clock = [1700000000], wakeups = [Awake, Awake]\<rparr>"
  let ?wk = "\<lparr>config_file = FileNotFoundError,
      answers = [Completed 0 '' M a.py'', Completed 1 ''fatal: index.lock exists''],
      clock = [1700000000], wakeups = [Awake]\<rparr>"
  let ?w1 = "\<lparr>config_file = FileNotFoundError,
      answers = [Completed 1 ''fatal: index.lock exists''],
      clock = [1700000000], wakeups = [Awake]\<rparr>"
  let ?w2 = "\<lparr>config_file = FileNotFoundError,
      answers = [Completed 1 ''fatal: index.lock exists''],
      clock = [], wakeups = [Awake]\<rparr>"
  let ?ek = "[Print [Text ''> git status --porcelain''],
      Subprocess ''git status --porcelain'' (Completed 0 []), Sleep (Finite 2)]"
  have h1: "load_config scripted ?w = (DEFAULT_CONFIG, ?w, [])"
    by (simp add: load_config_def scripted_def subprocess_run_def captured_stdout_def)
  have h2: "truthy (dict_get DEFAULT_CONFIG ''enabled'' (JBool True))"
    by (simp add: dict_get_def DEFAULT_CONFIG_def)
  have h3: "read_params scripted DEFAULT_CONFIG = Inr default_params"
    by (simp add: read_params_def dict_get_def DEFAULT_CONFIG_def default_params_def)
  have h4: "idle_passes (Suc 0) scripted default_params ?w = Some (?wk, ?ek)"
    by (simp add: has_worktree_changes_def run_def scripted_def subprocess_run_def captured_stdout_def default_params_def)
  have h5: "subprocess_run scripted ''git status --porcelain'' ?wk =
      (Completed 0 '' M a.py'', ?w1)"
    by (simp add: scripted_def subprocess_run_def captured_stdout_def)
  have h6: "\<exists>c\<in>set '' M a.py''. \<not> py_isspace c"
    by (simp add: py_isspace_def)
  have h7: "time_time scripted ?w1 = (1700000000, ?w2)"
    by (simp add: scripted_def subprocess_run_def captured_stdout_def)
  have h8: "debounce default_params = Finite 5"
    by (simp add: default_params_def)
  have h9: "(5::rat) \<le> 1700000000"
    by simp
  from first_change_passes_debounce [OF h1 h2 h3 h4 h5 h6 h7 h8 h9, of 0]
  obtain rest where "commands (trace (main (Suc 0 + Suc 0) scripted ?w)) =
      replicate (Suc (Suc 0)) ''git status --porcelain'' @ ''git add -A'' # rest"
    by blast
  then show ?thesis by simp
qed

end
